theory Spec2Isabelle
  imports Complex_Main
begin

section \<open>Timestamps\<close>

text \<open>
  The date columns of the three tables are read with \<^verbatim>\<open>parse_dates\<close>, so a cell is a
  pandas Timestamp or the missing value NaT. A Timestamp is modelled by its civil fields
  and the nanoseconds elapsed since midnight; NaT is \<open>None\<close>.

  A cell that cannot be parsed keeps \<^verbatim>\<open>read_csv\<close> from converting its column, which then
  holds strings: lines 68-69 turn such a cell into NaT as well, but the comparison on
  line 43 is then between strings and Timestamps and selects no row. The model covers
  converted columns; where a theorem needs it, it assumes that every in-service cell of
  both tables holds a date.
\<close>

record timestamp =
  ts_year :: int
  ts_month :: int
  ts_day :: int
  ts_nanos :: int

definition ymd :: "int \<Rightarrow> int \<Rightarrow> int \<Rightarrow> timestamp" where
  "ymd y m d = \<lparr>ts_year = y, ts_month = m, ts_day = d, ts_nanos = 0\<rparr>"

definition ns_per_day :: int where
  "ns_per_day = 86400000000000"

text \<open>Days from 1970-01-01 to a date of the proleptic Gregorian calendar.\<close>

definition days_from_civil :: "int \<Rightarrow> int \<Rightarrow> int \<Rightarrow> int" where
  "days_from_civil y m d =
     (let y' = (if m \<le> 2 then y - 1 else y);
          era = y' div 400;
          yoe = y' - era * 400;
          mp = (m + 9) mod 12;
          doy = (153 * mp + 2) div 5 + d - 1;
          doe = yoe * 365 + yoe div 4 - yoe div 100 + doy
      in era * 146097 + doe - 719468)"

text \<open>The value of a Timestamp: nanoseconds since the epoch.\<close>

definition ts_value :: "timestamp \<Rightarrow> int" where
  "ts_value t = days_from_civil (ts_year t) (ts_month t) (ts_day t) * ns_per_day + ts_nanos t"

text \<open>
  \<^verbatim>\<open>(a - b).dt.days\<close>: the days component of a Timedelta is the floor of the difference
  in days; the difference with NaT is NaN (\<open>None\<close>).
\<close>

definition timedelta_days :: "timestamp option \<Rightarrow> timestamp option \<Rightarrow> int option" where
  "timedelta_days a b =
     (case (a, b) of
        (Some x, Some y) \<Rightarrow> Some ((ts_value x - ts_value y) div ns_per_day)
      | _ \<Rightarrow> None)"

definition is_leap_year :: "int \<Rightarrow> bool" where
  "is_leap_year y = (y mod 4 = 0 \<and> (y mod 100 \<noteq> 0 \<or> y mod 400 = 0))"

definition days_in_month :: "int \<Rightarrow> int \<Rightarrow> int" where
  "days_in_month y m =
     (if m = 2 then (if is_leap_year y then 29 else 28)
      else if m = 4 \<or> m = 6 \<or> m = 9 \<or> m = 11 then 30
      else 31)"

text \<open>
  \<^verbatim>\<open>t + pd.DateOffset(months=k)\<close>: the month is moved by \<open>k\<close>, the day of the month is
  kept unless the target month is shorter (then its last day), the time of day is kept.
\<close>

definition date_offset_months :: "timestamp \<Rightarrow> int \<Rightarrow> timestamp" where
  "date_offset_months t k =
     (let total = ts_month t - 1 + k;
          y = ts_year t + total div 12;
          m = total mod 12 + 1
      in \<lparr>ts_year = y, ts_month = m, ts_day = min (ts_day t) (days_in_month y m),
          ts_nanos = ts_nanos t\<rparr>)"

text \<open>Elementwise \<^verbatim>\<open>==\<close> on a date column: NaT equals nothing, not even NaT.\<close>

definition date_eq :: "timestamp option \<Rightarrow> timestamp option \<Rightarrow> bool" where
  "date_eq a b = (case (a, b) of (Some x, Some y) \<Rightarrow> x = y | _ \<Rightarrow> False)"


section \<open>Input tables\<close>

text \<open>
  A row of the sales table (and of the optional future sales table) and a row of the
  returns table. The quantity columns are integers; the 64-bit range of the columns is
  not modelled.
\<close>

record sales_row =
  date_in_service :: "timestamp option"
  quantity_in_service :: int

record returns_row =
  ret_date_in_service :: "timestamp option"
  date_of_return :: "timestamp option"
  quantity_returned :: int


section \<open>Lifetime dataset\<close>

record lifetime_record =
  in_service :: "timestamp option"
  event_date :: "timestamp option"
  event_observed :: int

record lifetime_row = lifetime_record +
  duration :: "int option"

datatype error = KeyError

text \<open>Lines 30-34: the record appended for one returned unit.\<close>

definition failure_record :: "returns_row \<Rightarrow> lifetime_record" where
  "failure_record row =
     \<lparr>in_service = ret_date_in_service row,
      event_date = date_of_return row,
      event_observed = 1\<rparr>"

text \<open>
  Lines 27-35. \<^verbatim>\<open>range(n)\<close> is empty for \<open>n \<le> 0\<close>, so the inner loop appends
  \<open>nat n\<close> copies of the same record.
\<close>

definition failure_records :: "returns_row list \<Rightarrow> lifetime_record list" where
  "failure_records returns_data =
     fold (\<lambda>row acc. acc @ replicate (nat (quantity_returned row)) (failure_record row))
       returns_data []"

text \<open>Line 38.\<close>

definition cutoff_date :: timestamp where
  "cutoff_date = ymd 2011 9 1"

text \<open>Line 43: the sum of the returned quantities over the rows selected by the mask.\<close>

definition total_returned :: "returns_row list \<Rightarrow> sales_row \<Rightarrow> int" where
  "total_returned returns_data row =
     sum_list (map quantity_returned
       (filter (\<lambda>r. date_eq (ret_date_in_service r) (date_in_service row)) returns_data))"

text \<open>Line 44. On integers \<^verbatim>\<open>int(...)\<close> changes nothing.\<close>

definition num_censored :: "returns_row list \<Rightarrow> sales_row \<Rightarrow> int" where
  "num_censored returns_data row = quantity_in_service row - total_returned returns_data row"

text \<open>Lines 46-50: the record appended for one unit still in service.\<close>

definition censored_record :: "sales_row \<Rightarrow> lifetime_record" where
  "censored_record row =
     \<lparr>in_service = date_in_service row,
      event_date = Some cutoff_date,
      event_observed = 0\<rparr>"

text \<open>Lines 41-51.\<close>

definition censored_records :: "sales_row list \<Rightarrow> returns_row list \<Rightarrow> lifetime_record list" where
  "censored_records sales_data returns_data =
     fold (\<lambda>row acc. acc @ replicate (nat (num_censored returns_data row)) (censored_record row))
       sales_data []"

text \<open>Line 72: the new column \<^verbatim>\<open>duration\<close>.\<close>

definition with_duration :: "lifetime_record \<Rightarrow> lifetime_row" where
  "with_duration r =
     \<lparr>in_service = in_service r, event_date = event_date r,
      event_observed = event_observed r,
      duration = timedelta_days (event_date r) (in_service r)\<rparr>"

text \<open>Line 73: \<^verbatim>\<open>dropna(subset=['event_date', 'duration'])\<close>.\<close>

definition dropna :: "lifetime_row list \<Rightarrow> lifetime_row list" where
  "dropna rows = filter (\<lambda>r. event_date r \<noteq> None \<and> duration r \<noteq> None) rows"

text \<open>
  Lines 27-73: the table handed to the fit on line 82. When neither loop appended a
  record, both frames are built from an empty list and have no columns, and so has
  their concatenation: the column lookup on line 68 raises KeyError.
\<close>

definition lifetime_df :: "sales_row list \<Rightarrow> returns_row list \<Rightarrow> error + lifetime_row list" where
  "lifetime_df sales_data returns_data =
     (let records = failure_records returns_data @ censored_records sales_data returns_data
      in if records = [] then Inl KeyError
         else Inr (dropna (map with_duration records)))"


section \<open>Cohort forecast\<close>

record cohort_forecast =
  cohort_in_service :: "timestamp option"
  forecast_month :: "timestamp option"
  expected_failures :: real

text \<open>
  Lines 112-123, the body of the inner loop. The fitted model is used only through
  \<^verbatim>\<open>wf.cumulative_density_at_times\<close>, the parameter \<open>cdf\<close>. Here the arithmetic is
  exact: this definition fixes which records are produced and the formula of each. The
  rounding of the float64 arithmetic is added in \<open>forecast_record_f64\<close> below.
\<close>

definition forecast_record :: "(real \<Rightarrow> real) \<Rightarrow> sales_row \<Rightarrow> int \<Rightarrow> cohort_forecast" where
  "forecast_record cdf row month =
     (let cohort_date = date_in_service row;
          units = quantity_in_service row;
          t1 = (month - 1) * 30;
          t2 = month * 30;
          p1 = cdf (real_of_int t1);
          p2 = cdf (real_of_int t2);
          prob = max (p2 - p1) 0;
          expected = real_of_int units * prob;
          fmonth = map_option (\<lambda>d. date_offset_months d month) cohort_date
      in \<lparr>cohort_in_service = cohort_date, forecast_month = fmonth,
          expected_failures = expected\<rparr>)"

text \<open>Lines 106-124.\<close>

definition forecast_failures_by_cohort ::
    "(real \<Rightarrow> real) \<Rightarrow> sales_row list \<Rightarrow> int \<Rightarrow> cohort_forecast list" where
  "forecast_failures_by_cohort cdf sales_df months_ahead =
     fold (\<lambda>row all_forecasts.
             fold (\<lambda>month acc. acc @ [forecast_record cdf row month])
               [1..months_ahead] all_forecasts)
       sales_df []"

text \<open>Lines 126-131: \<open>future_sales\<close> is \<open>None\<close> when no future sales file was uploaded.\<close>

definition forecast_df ::
    "(real \<Rightarrow> real) \<Rightarrow> sales_row list \<Rightarrow> sales_row list option \<Rightarrow> int \<Rightarrow> cohort_forecast list" where
  "forecast_df cdf sales_data future_sales months_ahead =
     (let forecast = forecast_failures_by_cohort cdf sales_data months_ahead
      in case future_sales of
           None \<Rightarrow> forecast
         | Some future \<Rightarrow>
             forecast @ forecast_failures_by_cohort cdf future months_ahead)"

text \<open>
  Modelled from the spec: the fitted model is an object of the lifelines library, whose
  code is not part of the repository. Section 4.2 gives its cumulative distribution
  function: \<open>SF(t) = exp (- (t / \<lambda>) ^ k)\<close> and \<open>CDF(t) = 1 - SF(t)\<close>, for scale \<open>\<lambda>\<close> and
  shape \<open>k\<close>.
\<close>

definition weibull_cdf :: "real \<Rightarrow> real \<Rightarrow> real \<Rightarrow> real" where
  "weibull_cdf lam k t = 1 - exp (- ((t / lam) powr k))"


section \<open>Cohort forecast in float64\<close>

text \<open>
  The expected failures are computed in IEEE 754 binary64. A float64 number is modelled
  by the real it denotes, and an operation by the exact operation followed by rounding
  to the nearest float64, ties to the even significand. The exponent of the unit in the
  last place is that of the binade of the number, and that of the smallest normal
  binade for subnormal numbers. Overflow to infinity and NaN are not modelled.
\<close>








section \<open>Vocabulary of the properties\<close>

text \<open>
  The observed failures and the censored units that a table of lifetime rows holds for
  the cohort put in service on \<open>d\<close>.
\<close>

definition observed_failures_for_cohort :: "lifetime_row list \<Rightarrow> timestamp \<Rightarrow> nat" where
  "observed_failures_for_cohort obs d =
     length (filter (\<lambda>r. in_service r = Some d \<and> event_observed r = 1) obs)"

definition censored_count_for_cohort :: "lifetime_row list \<Rightarrow> timestamp \<Rightarrow> nat" where
  "censored_count_for_cohort obs d =
     length (filter (\<lambda>r. in_service r = Some d \<and> event_observed r = 0) obs)"

text \<open>Concrete tables on which the theorems below are instantiated.\<close>

definition hist :: "sales_row list" where
  "hist = [\<lparr>date_in_service = Some (ymd 2020 1 1), quantity_in_service = 100\<rparr>]"

definition future :: "sales_row list" where
  "future = [\<lparr>date_in_service = Some (ymd 2021 1 1), quantity_in_service = 50\<rparr>]"

definition negative_cohort :: "sales_row list" where
  "negative_cohort = [\<lparr>date_in_service = Some (ymd 2020 1 1), quantity_in_service = - 5\<rparr>]"

definition over_sales :: "sales_row list" where
  "over_sales = [\<lparr>date_in_service = Some (ymd 2020 1 1), quantity_in_service = 1\<rparr>]"

definition over_returns :: "returns_row list" where
  "over_returns = [\<lparr>ret_date_in_service = Some (ymd 2020 1 1),
     date_of_return = Some (ymd 2020 2 1), quantity_returned = 2\<rparr>]"

definition over_obs :: "lifetime_row list" where
  "over_obs = replicate 2 \<lparr>in_service = Some (ymd 2020 1 1), event_date = Some (ymd 2020 2 1),
     event_observed = 1, duration = Some 31\<rparr>"

definition ok_sales :: "sales_row list" where
  "ok_sales = [\<lparr>date_in_service = Some (ymd 2010 1 1), quantity_in_service = 5\<rparr>]"

definition ok_returns :: "returns_row list" where
  "ok_returns =
     [\<lparr>ret_date_in_service = Some (ymd 2010 1 1), date_of_return = Some (ymd 2010 4 1),
       quantity_returned = 2\<rparr>,
      \<lparr>ret_date_in_service = Some (ymd 2010 1 1), date_of_return = Some (ymd 2010 7 1),
       quantity_returned = 1\<rparr>]"

definition ok_obs :: "lifetime_row list" where
  "ok_obs =
     [\<lparr>in_service = Some (ymd 2010 1 1), event_date = Some (ymd 2010 4 1),
       event_observed = 1, duration = Some 90\<rparr>,
      \<lparr>in_service = Some (ymd 2010 1 1), event_date = Some (ymd 2010 4 1),
       event_observed = 1, duration = Some 90\<rparr>,
      \<lparr>in_service = Some (ymd 2010 1 1), event_date = Some (ymd 2010 7 1),
       event_observed = 1, duration = Some 181\<rparr>,
      \<lparr>in_service = Some (ymd 2010 1 1), event_date = Some (ymd 2011 9 1),
       event_observed = 0, duration = Some 608\<rparr>,
      \<lparr>in_service = Some (ymd 2010 1 1), event_date = Some (ymd 2011 9 1),
       event_observed = 0, duration = Some 608\<rparr>]"

definition early_sales :: "sales_row list" where
  "early_sales = [\<lparr>date_in_service = Some (ymd 2010 1 1), quantity_in_service = 1\<rparr>]"

definition late_sales :: "sales_row list" where
  "late_sales = [\<lparr>date_in_service = Some (ymd 2020 1 1), quantity_in_service = 2\<rparr>]"

definition late_returns :: "returns_row list" where
  "late_returns = [\<lparr>ret_date_in_service = Some (ymd 2020 1 1),
     date_of_return = Some (ymd 2020 4 1), quantity_returned = 1\<rparr>]"

definition missing_sales :: "sales_row list" where
  "missing_sales = [\<lparr>date_in_service = Some (ymd 2010 1 1), quantity_in_service = 3\<rparr>]"

definition early_return :: "returns_row list" where
  "early_return = [\<lparr>ret_date_in_service = Some (ymd 2010 1 1),
     date_of_return = Some (ymd 2009 12 31), quantity_returned = 1\<rparr>]"

definition missing_returns :: "returns_row list" where
  "missing_returns =
     [\<lparr>ret_date_in_service = Some (ymd 2010 1 1), date_of_return = None, quantity_returned = 1\<rparr>,
      \<lparr>ret_date_in_service = None, date_of_return = Some (ymd 2010 4 1), quantity_returned = 1\<rparr>,
      \<lparr>ret_date_in_service = Some (ymd 2010 1 1), date_of_return = Some (ymd 2010 7 1),
       quantity_returned = 1\<rparr>]"

definition missing_obs :: "lifetime_row list" where
  "missing_obs =
     [\<lparr>in_service = Some (ymd 2010 1 1), event_date = Some (ymd 2010 7 1),
       event_observed = 1, duration = Some 181\<rparr>,
      \<lparr>in_service = Some (ymd 2010 1 1), event_date = Some (ymd 2011 9 1),
       event_observed = 0, duration = Some 608\<rparr>]"

definition unmatched_return :: returns_row where
  "unmatched_return = \<lparr>ret_date_in_service = Some (ymd 2010 2 1),
     date_of_return = Some (ymd 2010 3 1), quantity_returned = 2\<rparr>"




section \<open>The forecast as a table\<close>

lemma fold_append_concat:
  "fold (\<lambda>x acc. acc @ g x) xs acc = acc @ concat (map g xs)"
  by (induction xs arbitrary: acc) simp_all

lemma fold_snoc_map:
  "fold (\<lambda>x acc. acc @ [f x]) xs acc = acc @ map f xs"
  by (induction xs arbitrary: acc) simp_all

lemma forecast_concat:
  "forecast_failures_by_cohort cdf sales_df months_ahead =
     concat (map (\<lambda>row. map (forecast_record cdf row) [1..months_ahead]) sales_df)"
proof -
  have inner: "(\<lambda>row. fold (\<lambda>month acc. acc @ [forecast_record cdf row month]) [1..months_ahead]) =
      (\<lambda>row acc. acc @ map (forecast_record cdf row) [1..months_ahead])"
    by (intro ext) (rule fold_snoc_map)
  show ?thesis
    unfolding forecast_failures_by_cohort_def inner
    by (simp add: fold_append_concat)
qed

lemma nth_concat_uniform:
  "\<forall>xs \<in> set xss. length xs = k \<Longrightarrow> i < length xss \<Longrightarrow> j < k \<Longrightarrow>
     concat xss ! (i * k + j) = xss ! i ! j"
proof (induction xss arbitrary: i)
  case Nil
  then show ?case by simp
next
  case (Cons xs xss)
  show ?case
  proof (cases i)
    case 0
    with Cons.prems show ?thesis by (simp add: nth_append)
  next
    case (Suc i')
    with Cons.prems have "concat xss ! (i' * k + j) = xss ! i' ! j"
      by (intro Cons.IH) simp_all
    with Suc Cons.prems show ?thesis by (simp add: nth_append add.assoc)
  qed
qed

lemma length_concat_uniform:
  "\<forall>xs \<in> set xss. length xs = k \<Longrightarrow> length (concat xss) = length xss * k"
  by (induction xss) simp_all


lemma length_forecast:
  "length (forecast_failures_by_cohort cdf sales_df months_ahead) =
     length sales_df * nat months_ahead"
  unfolding forecast_concat
  by (subst length_concat_uniform [where k = "nat months_ahead"]) simp_all

lemma nth_forecast:
  assumes "i < length sales_df" and "1 \<le> m" and "m \<le> months_ahead"
  shows "forecast_failures_by_cohort cdf sales_df months_ahead ! (i * nat months_ahead + nat (m - 1)) =
     forecast_record cdf (sales_df ! i) m"
proof -
  let ?xss = "map (\<lambda>row. map (forecast_record cdf row) [1..months_ahead]) sales_df"
  have uni: "\<forall>xs \<in> set ?xss. length xs = nat months_ahead" by simp
  have j: "nat (m - 1) < nat months_ahead" using assms by linarith
  have "concat ?xss ! (i * nat months_ahead + nat (m - 1)) = ?xss ! i ! nat (m - 1)"
    using uni _ j by (rule nth_concat_uniform) (simp add: assms)
  also have "\<dots> = forecast_record cdf (sales_df ! i) ([1..months_ahead] ! nat (m - 1))"
    using assms j by simp
  also have "[1..months_ahead] ! nat (m - 1) = m"
    using assms by simp
  finally show ?thesis by (simp add: forecast_concat)
qed

text \<open>
  Claim C1. For the cohort in row \<open>i\<close> of the table (installation date \<open>d0\<close>, unit count
  \<open>u\<close>) and every month index \<open>m\<close> from 1 to the horizon, the forecast holds, at the
  position of that cohort and month, the record whose expected failures are
  \<open>u * max (CDF (m * 30) - CDF ((m - 1) * 30)) 0\<close> and whose forecast month is \<open>d0\<close>
  moved forward by \<open>m\<close> calendar months. The forecast has one position for each pair of a
  cohort and a month, so every cohort contributes as many records as the horizon has
  months.
\<close>

theorem forecast_one_record_per_cohort_month:
  assumes "i < length sales_df" and "1 \<le> m" and "m \<le> months_ahead"
  shows "length (forecast_failures_by_cohort cdf sales_df months_ahead) =
           length sales_df * nat months_ahead \<and>
         forecast_failures_by_cohort cdf sales_df months_ahead ! (i * nat months_ahead + nat (m - 1)) =
           \<lparr>cohort_in_service = date_in_service (sales_df ! i),
            forecast_month = map_option (\<lambda>d0. date_offset_months d0 m) (date_in_service (sales_df ! i)),
            expected_failures = real_of_int (quantity_in_service (sales_df ! i)) *
              max (cdf (real_of_int (m * 30)) - cdf (real_of_int ((m - 1) * 30))) 0\<rparr>"
  using nth_forecast [OF assms, of cdf]
  by (simp add: length_forecast forecast_record_def Let_def)

text \<open>
  Claim C8, as amended. When a future sales table is supplied, the same procedure runs
  over it with the horizon of the historical table (there is one horizon, the slider's
  value), and the output is the historical forecast followed by the future forecast,
  which is also the forecast of the two tables put end to end.
\<close>

theorem forecast_df_shared_horizon:
  "forecast_df cdf sales_data (Some future_sales) months_ahead =
     forecast_failures_by_cohort cdf sales_data months_ahead @
     forecast_failures_by_cohort cdf future_sales months_ahead \<and>
   forecast_df cdf sales_data (Some future_sales) months_ahead =
     forecast_failures_by_cohort cdf (sales_data @ future_sales) months_ahead"
  by (simp add: forecast_df_def forecast_concat)


lemma expected_failures_forecast_record:
  "expected_failures (forecast_record cdf row m) =
     real_of_int (quantity_in_service row) *
       max (cdf (real_of_int (m * 30)) - cdf (real_of_int ((m - 1) * 30))) 0"
  by (simp add: forecast_record_def Let_def)

subsection \<open>Rounding to float64\<close>






































text \<open>The record of the second month of a cohort installed on 2020-01-01.\<close>

theorem forecast_one_record_per_cohort_month_witness:
  "0 < length hist \<and> (1::int) \<le> 2 \<and> (2::int) \<le> 12 \<and>
   length (forecast_failures_by_cohort (weibull_cdf 30 1) hist 12) = 12 \<and>
   forecast_failures_by_cohort (weibull_cdf 30 1) hist 12 ! 1 =
     \<lparr>cohort_in_service = Some (ymd 2020 1 1), forecast_month = Some (ymd 2020 3 1),
      expected_failures = 100 * max (weibull_cdf 30 1 60 - weibull_cdf 30 1 30) 0\<rparr>"
  using forecast_one_record_per_cohort_month [of 0 hist 2 12 "weibull_cdf 30 1"]
  by (simp add: hist_def ymd_def date_offset_months_def days_in_month_def)


text \<open>
  Claim C8 as stated fails: with a horizon of 1 month for the historical table, no
  horizon of 2 months can be given for the future table. The output has one record for
  the future cohort, not two.
\<close>

theorem future_horizon_not_independent:
  "forecast_df (weibull_cdf 30 1) hist (Some future) 1 \<noteq>
     forecast_failures_by_cohort (weibull_cdf 30 1) hist 1 @
     forecast_failures_by_cohort (weibull_cdf 30 1) future 2"
proof
  assume "forecast_df (weibull_cdf 30 1) hist (Some future) 1 =
     forecast_failures_by_cohort (weibull_cdf 30 1) hist 1 @
     forecast_failures_by_cohort (weibull_cdf 30 1) future 2"
  then have "length (forecast_df (weibull_cdf 30 1) hist (Some future) 1) =
     length (forecast_failures_by_cohort (weibull_cdf 30 1) hist 1 @
       forecast_failures_by_cohort (weibull_cdf 30 1) future 2)"
    by (rule arg_cong)
  then show False
    by (simp add: forecast_df_def length_forecast hist_def future_def)
qed

text \<open>
  Claim C9 as stated fails: a horizon of 0 months gives the empty forecast, and a cohort
  of \<open>- 5\<close> units gives a record with negative expected failures; neither is rejected.
\<close>

theorem forecast_accepts_invalid_request:
  "forecast_failures_by_cohort (weibull_cdf 30 1) hist 0 = [] \<and>
   forecast_failures_by_cohort (weibull_cdf 30 1) negative_cohort 1 =
     [\<lparr>cohort_in_service = Some (ymd 2020 1 1), forecast_month = Some (ymd 2020 2 1),
       expected_failures = - 5 * (1 - exp (- 1))\<rparr>] \<and>
   - 5 * (1 - exp (- 1)) < (0::real)"
  by (simp add: forecast_concat hist_def negative_cohort_def upto.simps forecast_record_def
      Let_def ymd_def date_offset_months_def days_in_month_def weibull_cdf_def)

text \<open>
  Claim C9, as amended. The forecast validates nothing and always returns a table: a
  horizon below 1 month gives the empty forecast, and a cohort with a negative unit
  count \<open>u\<close> gets, for every month, the record with expected failures \<open>u * p\<close>, which is
  not positive.
\<close>

theorem forecast_without_validation:
  "(months_ahead < 1 \<longrightarrow> forecast_failures_by_cohort cdf sales_df months_ahead = []) \<and>
   (i < length sales_df \<and> 1 \<le> m \<and> m \<le> months_ahead \<and> quantity_in_service (sales_df ! i) < 0 \<longrightarrow>
      expected_failures (forecast_failures_by_cohort cdf sales_df months_ahead !
        (i * nat months_ahead + nat (m - 1))) =
        real_of_int (quantity_in_service (sales_df ! i)) *
          max (cdf (real_of_int (m * 30)) - cdf (real_of_int ((m - 1) * 30))) 0 \<and>
      expected_failures (forecast_failures_by_cohort cdf sales_df months_ahead !
        (i * nat months_ahead + nat (m - 1))) \<le> 0)"
proof (intro conjI impI)
  assume "months_ahead < 1"
  then show "forecast_failures_by_cohort cdf sales_df months_ahead = []"
    by (simp add: forecast_concat)
next
  assume h: "i < length sales_df \<and> 1 \<le> m \<and> m \<le> months_ahead \<and> quantity_in_service (sales_df ! i) < 0"
  then have nth: "forecast_failures_by_cohort cdf sales_df months_ahead ! (i * nat months_ahead + nat (m - 1)) =
      forecast_record cdf (sales_df ! i) m"
    by (intro nth_forecast) simp_all
  show "expected_failures (forecast_failures_by_cohort cdf sales_df months_ahead !
        (i * nat months_ahead + nat (m - 1))) =
        real_of_int (quantity_in_service (sales_df ! i)) *
          max (cdf (real_of_int (m * 30)) - cdf (real_of_int ((m - 1) * 30))) 0"
    by (simp only: nth expected_failures_forecast_record)
  have "real_of_int (quantity_in_service (sales_df ! i)) *
      max (cdf (real_of_int (m * 30)) - cdf (real_of_int ((m - 1) * 30))) 0 \<le> 0"
    using h by (intro mult_nonpos_nonneg) simp_all
  then show "expected_failures (forecast_failures_by_cohort cdf sales_df months_ahead !
        (i * nat months_ahead + nat (m - 1))) \<le> 0"
    by (simp only: nth expected_failures_forecast_record)
qed

text \<open>A horizon of 0 months, and a cohort of \<open>- 5\<close> units at a horizon of 1 month.\<close>

theorem forecast_without_validation_witness:
  "(0::int) < 1 \<and> forecast_failures_by_cohort (weibull_cdf 30 1) hist 0 = [] \<and>
   0 < length negative_cohort \<and> (1::int) \<le> 1 \<and> quantity_in_service (negative_cohort ! 0) < 0 \<and>
   expected_failures (forecast_failures_by_cohort (weibull_cdf 30 1) negative_cohort 1 ! 0) \<le> 0"
  using forecast_without_validation [of 0 "weibull_cdf 30 1" hist 0 1]
    forecast_without_validation [of 1 "weibull_cdf 30 1" negative_cohort 0 1]
  by (simp add: hist_def negative_cohort_def)


section \<open>The lifetime dataset\<close>

lemma failure_records_concat:
  "failure_records returns_data =
     concat (map (\<lambda>row. replicate (nat (quantity_returned row)) (failure_record row)) returns_data)"
  unfolding failure_records_def by (simp add: fold_append_concat)

lemma censored_records_concat:
  "censored_records sales_data returns_data =
     concat (map (\<lambda>row. replicate (nat (num_censored returns_data row)) (censored_record row))
       sales_data)"
  unfolding censored_records_def by (simp add: fold_append_concat)

lemma length_filter_concat_replicate:
  "length (filter Q (concat (map (\<lambda>x. replicate (n x) (h x)) xs))) =
     sum_list (map n (filter (\<lambda>x. Q (h x)) xs))"
  by (induction xs) simp_all

lemma filter_dropna_with_duration:
  "filter P (dropna (map with_duration records)) =
     map with_duration (filter (\<lambda>r. (in_service r \<noteq> None \<and> event_date r \<noteq> None) \<and> P (with_duration r)) records)"
  by (induction records)
    (auto simp: dropna_def with_duration_def timedelta_days_def split: option.splits)

lemma dropna_with_duration:
  "dropna (map with_duration records) =
     map with_duration (filter (\<lambda>r. in_service r \<noteq> None \<and> event_date r \<noteq> None) records)"
  using filter_dropna_with_duration [of "\<lambda>_. True" records] by simp

lemma lifetime_df_Inr:
  "lifetime_df sales_data returns_data = Inr obs \<Longrightarrow>
     obs = dropna (map with_duration
       (failure_records returns_data @ censored_records sales_data returns_data))"
  by (simp add: lifetime_df_def Let_def split: if_splits)

lemma int_sum_list_nat:
  "\<forall>x \<in> set xs. 0 \<le> f x \<Longrightarrow> int (sum_list (map (\<lambda>x. nat (f x)) xs)) = sum_list (map f xs)"
  by (induction xs) simp_all

lemma observed_count:
  "observed_failures_for_cohort
     (dropna (map with_duration (failure_records returns_data @ censored_records sales_data returns_data))) d =
   sum_list (map (\<lambda>r. nat (quantity_returned r))
     (filter (\<lambda>r. ret_date_in_service r = Some d \<and> date_of_return r \<noteq> None) returns_data))"
proof -
  have F: "(\<lambda>x. (in_service (failure_record x) \<noteq> None \<and> event_date (failure_record x) \<noteq> None) \<and>
        in_service (with_duration (failure_record x)) = Some d \<and>
        event_observed (with_duration (failure_record x)) = 1) =
      (\<lambda>r. ret_date_in_service r = Some d \<and> date_of_return r \<noteq> None)"
    by (auto simp: failure_record_def with_duration_def)
  have C: "(\<lambda>x. (in_service (censored_record x) \<noteq> None \<and> event_date (censored_record x) \<noteq> None) \<and>
        in_service (with_duration (censored_record x)) = Some d \<and>
        event_observed (with_duration (censored_record x)) = 1) = (\<lambda>_. False)"
    by (auto simp: censored_record_def with_duration_def)
  show ?thesis
    unfolding observed_failures_for_cohort_def filter_dropna_with_duration length_map filter_append
      length_append failure_records_concat censored_records_concat length_filter_concat_replicate F C
    by simp
qed

lemma censored_count:
  "censored_count_for_cohort
     (dropna (map with_duration (failure_records returns_data @ censored_records sales_data returns_data))) d =
   sum_list (map (\<lambda>s. nat (num_censored returns_data s))
     (filter (\<lambda>s. date_in_service s = Some d) sales_data))"
proof -
  have F: "(\<lambda>x. (in_service (failure_record x) \<noteq> None \<and> event_date (failure_record x) \<noteq> None) \<and>
        in_service (with_duration (failure_record x)) = Some d \<and>
        event_observed (with_duration (failure_record x)) = 0) = (\<lambda>_. False)"
    by (auto simp: failure_record_def with_duration_def)
  have C: "(\<lambda>x. (in_service (censored_record x) \<noteq> None \<and> event_date (censored_record x) \<noteq> None) \<and>
        in_service (with_duration (censored_record x)) = Some d \<and>
        event_observed (with_duration (censored_record x)) = 0) =
      (\<lambda>s. date_in_service s = Some d)"
    by (auto simp: censored_record_def with_duration_def)
  show ?thesis
    unfolding censored_count_for_cohort_def filter_dropna_with_duration length_map filter_append
      length_append failure_records_concat censored_records_concat length_filter_concat_replicate F C
    by simp
qed

lemma total_returned_Some:
  assumes "date_in_service row = Some d"
  shows "total_returned returns_data row =
       sum_list (map quantity_returned (filter (\<lambda>r. ret_date_in_service r = Some d) returns_data))"
proof -
  have eq: "(\<lambda>r. date_eq (ret_date_in_service r) (date_in_service row)) =
      (\<lambda>r. ret_date_in_service r = Some d)"
    using assms by (auto simp: date_eq_def split: option.splits)
  show ?thesis unfolding total_returned_def eq ..
qed

lemma filter_concat_replicate:
  "filter Q (concat (map (\<lambda>x. replicate (n x) (h x)) xs)) =
     concat (map (\<lambda>x. replicate (n x) (h x)) (filter (\<lambda>x. Q (h x)) xs))"
  by (induction xs) simp_all

lemma map_concat_replicate:
  "map f (concat (map (\<lambda>x. replicate (n x) (h x)) xs)) =
     concat (map (\<lambda>x. replicate (n x) (f (h x))) xs)"
  by (induction xs) simp_all

lemma filter_dropna_copies:
  "filter P (dropna (map with_duration (concat (map (\<lambda>x. replicate (n x) (h x)) xs)))) =
     concat (map (\<lambda>x. replicate (n x) (with_duration (h x)))
       (filter (\<lambda>x. (in_service (h x) \<noteq> None \<and> event_date (h x) \<noteq> None) \<and>
          P (with_duration (h x))) xs))"
proof -
  let ?Q = "\<lambda>r. (in_service r \<noteq> None \<and> event_date r \<noteq> None) \<and> P (with_duration r)"
  have "filter P (dropna (map with_duration (concat (map (\<lambda>x. replicate (n x) (h x)) xs)))) =
      map with_duration (filter ?Q (concat (map (\<lambda>x. replicate (n x) (h x)) xs)))"
    by (rule filter_dropna_with_duration)
  also have "\<dots> = map with_duration
      (concat (map (\<lambda>x. replicate (n x) (h x)) (filter (\<lambda>x. ?Q (h x)) xs)))"
    by (simp only: filter_concat_replicate)
  also have "\<dots> = concat (map (\<lambda>x. replicate (n x) (with_duration (h x)))
      (filter (\<lambda>x. ?Q (h x)) xs))"
    by (rule map_concat_replicate)
  finally show ?thesis .
qed

lemma dropna_append: "dropna (xs @ ys) = dropna xs @ dropna ys"
  by (simp add: dropna_def)

lemma observed_rows:
  "filter (\<lambda>r. in_service r = Some d \<and> event_observed r = 1)
     (dropna (map with_duration (failure_records returns_data @ censored_records sales_data returns_data))) =
   concat (map (\<lambda>r. replicate (nat (quantity_returned r)) (with_duration (failure_record r)))
     (filter (\<lambda>r. ret_date_in_service r = Some d \<and> date_of_return r \<noteq> None) returns_data))"
proof -
  have F: "(\<lambda>x. (in_service (failure_record x) \<noteq> None \<and> event_date (failure_record x) \<noteq> None) \<and>
        in_service (with_duration (failure_record x)) = Some d \<and>
        event_observed (with_duration (failure_record x)) = 1) =
      (\<lambda>r. ret_date_in_service r = Some d \<and> date_of_return r \<noteq> None)"
    by (auto simp: failure_record_def with_duration_def)
  have C: "(\<lambda>x. (in_service (censored_record x) \<noteq> None \<and> event_date (censored_record x) \<noteq> None) \<and>
        in_service (with_duration (censored_record x)) = Some d \<and>
        event_observed (with_duration (censored_record x)) = 1) = (\<lambda>_. False)"
    by (auto simp: censored_record_def with_duration_def)
  show ?thesis
    unfolding map_append dropna_append filter_append failure_records_concat censored_records_concat
    unfolding filter_dropna_copies F C
    by simp
qed

lemma censored_rows:
  "filter (\<lambda>r. in_service r = Some d \<and> event_observed r = 0)
     (dropna (map with_duration (failure_records returns_data @ censored_records sales_data returns_data))) =
   concat (map (\<lambda>s. replicate (nat (num_censored returns_data s)) (with_duration (censored_record s)))
     (filter (\<lambda>s. date_in_service s = Some d) sales_data))"
proof -
  have F: "(\<lambda>x. (in_service (failure_record x) \<noteq> None \<and> event_date (failure_record x) \<noteq> None) \<and>
        in_service (with_duration (failure_record x)) = Some d \<and>
        event_observed (with_duration (failure_record x)) = 0) = (\<lambda>_. False)"
    by (auto simp: failure_record_def with_duration_def)
  have C: "(\<lambda>x. (in_service (censored_record x) \<noteq> None \<and> event_date (censored_record x) \<noteq> None) \<and>
        in_service (with_duration (censored_record x)) = Some d \<and>
        event_observed (with_duration (censored_record x)) = 0) =
      (\<lambda>s. date_in_service s = Some d)"
    by (auto simp: censored_record_def with_duration_def)
  show ?thesis
    unfolding map_append dropna_append filter_append failure_records_concat censored_records_concat
    unfolding filter_dropna_copies F C
    by simp
qed

text \<open>
  Claim C2, as amended. Take the installation cohort of date \<open>d\<close>, the one row of the
  sales table with that date. Suppose every in-service cell of the sales and of the
  returns table holds a date, the returns of date \<open>d\<close> have non-negative quantities and a
  return date, and together they do not exceed the units installed. Then, in the table
  handed to the fit, the observed failures of the cohort are one row per returned unit
  of the return events of date \<open>d\<close>, in their order, so as many as the total returned;
  its censored rows are the units installed less that total, each with the cutoff as
  event date; and the two counts add up to the units installed.
\<close>

theorem censoring_accounting:
  assumes out: "lifetime_df sales_data returns_data = Inr obs"
    and cohort: "filter (\<lambda>s. date_in_service s = Some d) sales_data = [row]"
    and sales_dates: "\<forall>s \<in> set sales_data. date_in_service s \<noteq> None"
    and returns_dates: "\<forall>r \<in> set returns_data. ret_date_in_service r \<noteq> None"
    and returns_ok: "\<forall>r \<in> set returns_data. ret_date_in_service r = Some d \<longrightarrow>
        0 \<le> quantity_returned r \<and> date_of_return r \<noteq> None"
    and le: "total_returned returns_data row \<le> quantity_in_service row"
  shows "filter (\<lambda>r. in_service r = Some d \<and> event_observed r = 1) obs =
           concat (map (\<lambda>r. replicate (nat (quantity_returned r))
               \<lparr>in_service = Some d, event_date = date_of_return r, event_observed = 1,
                duration = timedelta_days (date_of_return r) (Some d)\<rparr>)
             (filter (\<lambda>r. ret_date_in_service r = Some d) returns_data)) \<and>
         filter (\<lambda>r. in_service r = Some d \<and> event_observed r = 0) obs =
           replicate (nat (quantity_in_service row - total_returned returns_data row))
             \<lparr>in_service = Some d, event_date = Some cutoff_date, event_observed = 0,
              duration = timedelta_days (Some cutoff_date) (Some d)\<rparr> \<and>
         total_returned returns_data row =
           sum_list (map quantity_returned
             (filter (\<lambda>r. ret_date_in_service r = Some d) returns_data)) \<and>
         int (observed_failures_for_cohort obs d) = total_returned returns_data row \<and>
         int (censored_count_for_cohort obs d) =
           quantity_in_service row - total_returned returns_data row \<and>
         int (observed_failures_for_cohort obs d) + int (censored_count_for_cohort obs d) =
           quantity_in_service row"
proof -
  have "row \<in> set (filter (\<lambda>s. date_in_service s = Some d) sales_data)"
    by (simp add: cohort)
  then have date: "date_in_service row = Some d" by simp
  have same: "filter (\<lambda>r. ret_date_in_service r = Some d \<and> date_of_return r \<noteq> None) returns_data =
      filter (\<lambda>r. ret_date_in_service r = Some d) returns_data"
    using returns_ok by (intro filter_cong) auto
  have nonneg: "\<forall>r \<in> set (filter (\<lambda>r. ret_date_in_service r = Some d) returns_data).
      0 \<le> quantity_returned r"
    using returns_ok by simp
  have obs: "obs = dropna (map with_duration
      (failure_records returns_data @ censored_records sales_data returns_data))"
    using out by (rule lifetime_df_Inr)
  have recs: "map (\<lambda>r. replicate (nat (quantity_returned r)) (with_duration (failure_record r)))
        (filter (\<lambda>r. ret_date_in_service r = Some d) returns_data) =
      map (\<lambda>r. replicate (nat (quantity_returned r))
               \<lparr>in_service = Some d, event_date = date_of_return r, event_observed = 1,
                duration = timedelta_days (date_of_return r) (Some d)\<rparr>)
        (filter (\<lambda>r. ret_date_in_service r = Some d) returns_data)"
    by (rule map_cong) (simp_all add: with_duration_def failure_record_def)
  have observed: "filter (\<lambda>r. in_service r = Some d \<and> event_observed r = 1) obs =
      concat (map (\<lambda>r. replicate (nat (quantity_returned r))
               \<lparr>in_service = Some d, event_date = date_of_return r, event_observed = 1,
                duration = timedelta_days (date_of_return r) (Some d)\<rparr>)
        (filter (\<lambda>r. ret_date_in_service r = Some d) returns_data))"
    unfolding obs observed_rows same recs ..
  have censored: "filter (\<lambda>r. in_service r = Some d \<and> event_observed r = 0) obs =
      replicate (nat (quantity_in_service row - total_returned returns_data row))
        \<lparr>in_service = Some d, event_date = Some cutoff_date, event_observed = 0,
         duration = timedelta_days (Some cutoff_date) (Some d)\<rparr>"
    unfolding obs censored_rows cohort
    by (simp add: num_censored_def with_duration_def censored_record_def date)
  have total: "total_returned returns_data row =
      sum_list (map quantity_returned (filter (\<lambda>r. ret_date_in_service r = Some d) returns_data))"
    using date by (rule total_returned_Some)
  have n_obs: "int (observed_failures_for_cohort obs d) = total_returned returns_data row"
    unfolding obs observed_count same total
    using nonneg by (rule int_sum_list_nat)
  have n_cens: "int (censored_count_for_cohort obs d) =
      quantity_in_service row - total_returned returns_data row"
    unfolding obs censored_count cohort using le by (simp add: num_censored_def)
  from n_obs n_cens have sum: "int (observed_failures_for_cohort obs d) +
      int (censored_count_for_cohort obs d) = quantity_in_service row"
    by simp
  from observed censored total n_obs n_cens sum show ?thesis by (intro conjI)
qed

lemma length_failure_records:
  "length (failure_records returns_data) =
     sum_list (map (\<lambda>r. nat (quantity_returned r)) returns_data)"
  using length_filter_concat_replicate [of "\<lambda>_. True" "\<lambda>r. nat (quantity_returned r)" failure_record returns_data]
  by (simp add: failure_records_concat)

lemma positive_sum_has_positive:
  "0 < sum_list (map f xs) \<Longrightarrow> \<exists>x \<in> set xs. (0::int) < f x"
  by (induction xs) (auto simp: add_pos_pos intro: ccontr)

lemma member_le_sum_list_nat:
  "x \<in> set xs \<Longrightarrow> (f x :: nat) \<le> sum_list (map f xs)"
  by (induction xs) auto

lemmas eval_simps =
  lifetime_df_def failure_records_def censored_records_def failure_record_def censored_record_def
  num_censored_def total_returned_def date_eq_def with_duration_def dropna_def timedelta_days_def
  ts_value_def days_from_civil_def ns_per_day_def ymd_def cutoff_date_def Let_def
  observed_failures_for_cohort_def censored_count_for_cohort_def

text \<open>
  Claim C2 as stated fails for a cohort with more returns than units: one unit
  installed and two returned give two observed failures and no censored unit.
\<close>

theorem accounting_fails_when_over_returned:
  "lifetime_df over_sales over_returns = Inr over_obs \<and>
   int (observed_failures_for_cohort over_obs (ymd 2020 1 1)) +
     int (censored_count_for_cohort over_obs (ymd 2020 1 1)) = 2 \<and>
   quantity_in_service (hd over_sales) = 1"
  by (simp add: over_sales_def over_returns_def over_obs_def eval_simps numeral_2_eq_2)

text \<open>
  Claim C3 as stated fails: with one unit installed and two returned, the censored count
  computed is \<open>- 1\<close>, no error is raised, no censored record is appended and the table is
  handed to the fit.
\<close>

theorem over_returned_cohort_accepted:
  "total_returned over_returns (hd over_sales) = 2 \<and>
   quantity_in_service (hd over_sales) = 1 \<and>
   num_censored over_returns (hd over_sales) = - 1 \<and>
   censored_records over_sales over_returns = [] \<and>
   lifetime_df over_sales over_returns =
     Inr [\<lparr>in_service = Some (ymd 2020 1 1), event_date = Some (ymd 2020 2 1),
            event_observed = 1, duration = Some 31\<rparr>,
          \<lparr>in_service = Some (ymd 2020 1 1), event_date = Some (ymd 2020 2 1),
            event_observed = 1, duration = Some 31\<rparr>]"
  by (simp add: over_sales_def over_returns_def eval_simps numeral_2_eq_2)

text \<open>
  Claim C3, as amended. If the total quantity returned for a cohort exceeds the units
  installed on its date (a non-negative number), the builder raises no error: it returns
  its table, in which that cohort has no censored record.
\<close>

theorem over_returned_cohort_not_rejected:
  assumes cohort: "filter (\<lambda>s. date_in_service s = Some d) sales_data = [row]"
    and units: "0 \<le> quantity_in_service row"
    and over: "quantity_in_service row < total_returned returns_data row"
  shows "\<exists>obs. lifetime_df sales_data returns_data = Inr obs \<and>
           censored_count_for_cohort obs d = 0"
proof -
  have "0 < sum_list (map quantity_returned
      (filter (\<lambda>r. date_eq (ret_date_in_service r) (date_in_service row)) returns_data))"
    using units over by (simp add: total_returned_def)
  then obtain r where r: "r \<in> set returns_data" "0 < quantity_returned r"
    using positive_sum_has_positive by fastforce
  have "nat (quantity_returned r) \<le> sum_list (map (\<lambda>r. nat (quantity_returned r)) returns_data)"
    using r(1) by (rule member_le_sum_list_nat)
  then have "0 < length (failure_records returns_data)"
    using r(2) by (simp add: length_failure_records)
  then have out: "lifetime_df sales_data returns_data =
      Inr (dropna (map with_duration
        (failure_records returns_data @ censored_records sales_data returns_data)))"
    by (simp add: lifetime_df_def Let_def)
  have "censored_count_for_cohort (dropna (map with_duration
        (failure_records returns_data @ censored_records sales_data returns_data))) d = 0"
    unfolding censored_count cohort using over by (simp add: num_censored_def)
  with out show ?thesis by blast
qed

text \<open>One unit installed on 2020-01-01 and two returned.\<close>

theorem over_returned_cohort_not_rejected_witness:
  "filter (\<lambda>s. date_in_service s = Some (ymd 2020 1 1)) over_sales = [hd over_sales] \<and>
   0 \<le> quantity_in_service (hd over_sales) \<and>
   quantity_in_service (hd over_sales) < total_returned over_returns (hd over_sales) \<and>
   (\<exists>obs. lifetime_df over_sales over_returns = Inr obs \<and>
      censored_count_for_cohort obs (ymd 2020 1 1) = 0)"
proof -
  have 1: "filter (\<lambda>s. date_in_service s = Some (ymd 2020 1 1)) over_sales = [hd over_sales]"
    by (simp add: over_sales_def)
  have 2: "0 \<le> quantity_in_service (hd over_sales)"
    by (simp add: over_sales_def)
  have 3: "quantity_in_service (hd over_sales) < total_returned over_returns (hd over_sales)"
    by (simp add: over_sales_def over_returns_def total_returned_def date_eq_def)
  show ?thesis
    using 1 2 3 over_returned_cohort_not_rejected [OF 1 2 3] by (intro conjI)
qed

lemma lifetime_df_ok: "lifetime_df ok_sales ok_returns = Inr ok_obs"
  by (simp add: ok_sales_def ok_returns_def ok_obs_def eval_simps numeral_2_eq_2)

text \<open>Five units installed on 2010-01-01, of which two and then one are returned.\<close>

theorem censoring_accounting_witness:
  "lifetime_df ok_sales ok_returns = Inr ok_obs \<and>
   filter (\<lambda>s. date_in_service s = Some (ymd 2010 1 1)) ok_sales = [hd ok_sales] \<and>
   total_returned ok_returns (hd ok_sales) \<le> quantity_in_service (hd ok_sales) \<and>
   int (observed_failures_for_cohort ok_obs (ymd 2010 1 1)) = 3 \<and>
   int (censored_count_for_cohort ok_obs (ymd 2010 1 1)) = 2 \<and>
   int (observed_failures_for_cohort ok_obs (ymd 2010 1 1)) +
     int (censored_count_for_cohort ok_obs (ymd 2010 1 1)) = quantity_in_service (hd ok_sales)"
proof -
  have 1: "filter (\<lambda>s. date_in_service s = Some (ymd 2010 1 1)) ok_sales = [hd ok_sales]"
    by (simp add: ok_sales_def)
  have 2: "\<forall>s \<in> set ok_sales. date_in_service s \<noteq> None"
    by (simp add: ok_sales_def)
  have 3: "\<forall>r \<in> set ok_returns. ret_date_in_service r \<noteq> None"
    by (simp add: ok_returns_def)
  have 4: "\<forall>r \<in> set ok_returns. ret_date_in_service r = Some (ymd 2010 1 1) \<longrightarrow>
      0 \<le> quantity_returned r \<and> date_of_return r \<noteq> None"
    by (simp add: ok_returns_def)
  have 5: "total_returned ok_returns (hd ok_sales) \<le> quantity_in_service (hd ok_sales)"
    by (simp add: ok_sales_def ok_returns_def total_returned_def date_eq_def)
  have 6: "total_returned ok_returns (hd ok_sales) = 3"
    by (simp add: ok_sales_def ok_returns_def total_returned_def date_eq_def)
  have 7: "quantity_in_service (hd ok_sales) = 5"
    by (simp add: ok_sales_def)
  note T = censoring_accounting [OF lifetime_df_ok 1 2 3 4 5]
  from T have A: "int (observed_failures_for_cohort ok_obs (ymd 2010 1 1)) =
      total_returned ok_returns (hd ok_sales)"
    by blast
  from T have B: "int (censored_count_for_cohort ok_obs (ymd 2010 1 1)) =
      quantity_in_service (hd ok_sales) - total_returned ok_returns (hd ok_sales)"
    by blast
  from T have C: "int (observed_failures_for_cohort ok_obs (ymd 2010 1 1)) +
     int (censored_count_for_cohort ok_obs (ymd 2010 1 1)) = quantity_in_service (hd ok_sales)"
    by blast
  from A 6 have A': "int (observed_failures_for_cohort ok_obs (ymd 2010 1 1)) = 3" by simp
  from B 6 7 have B': "int (censored_count_for_cohort ok_obs (ymd 2010 1 1)) = 2" by simp
  from lifetime_df_ok 1 5 A' B' C show ?thesis by (intro conjI)
qed

text \<open>
  Claim C6 as stated fails: a unit returned the day before it was put in service stays
  in the table handed to the fit, with a duration of \<open>- 1\<close> day.
\<close>

theorem negative_duration_reaches_fit:
  "lifetime_df early_sales early_return =
     Inr [\<lparr>in_service = Some (ymd 2010 1 1), event_date = Some (ymd 2009 12 31),
            event_observed = 1, duration = Some (- 1)\<rparr>]"
  by (simp add: early_sales_def early_return_def eval_simps)

text \<open>
  Claim C6, as amended. The table handed to the fit holds exactly the records whose two
  dates are present, in their order, so every record with a missing date is excluded;
  each row of the table has a duration, equal to the event date minus the in-service
  date in whole days (rounded down), which may be negative.
\<close>

theorem lifetime_rows_have_dates:
  assumes "lifetime_df sales_data returns_data = Inr obs"
  shows "obs = map with_duration (filter (\<lambda>r. in_service r \<noteq> None \<and> event_date r \<noteq> None)
           (failure_records returns_data @ censored_records sales_data returns_data)) \<and>
         (\<forall>r \<in> set obs. \<exists>e s. event_date r = Some e \<and> in_service r = Some s \<and>
            duration r = Some ((ts_value e - ts_value s) div ns_per_day))"
proof -
  have obs: "obs = map with_duration (filter (\<lambda>r. in_service r \<noteq> None \<and> event_date r \<noteq> None)
           (failure_records returns_data @ censored_records sales_data returns_data))"
    using lifetime_df_Inr [OF assms] by (simp only: dropna_with_duration)
  have "\<forall>r \<in> set obs. \<exists>e s. event_date r = Some e \<and> in_service r = Some s \<and>
            duration r = Some ((ts_value e - ts_value s) div ns_per_day)"
    unfolding obs by (auto simp: with_duration_def timedelta_days_def)
  with obs show ?thesis by (rule conjI)
qed

text \<open>
  Three units installed and three returns of one unit, the first two with a missing
  date: the table keeps the third return and the censored unit.
\<close>

theorem lifetime_rows_have_dates_witness:
  "lifetime_df missing_sales missing_returns = Inr missing_obs \<and>
   missing_obs = map with_duration (filter (\<lambda>r. in_service r \<noteq> None \<and> event_date r \<noteq> None)
           (failure_records missing_returns @ censored_records missing_sales missing_returns)) \<and>
   duration (hd missing_obs) = Some ((ts_value (ymd 2010 7 1) - ts_value (ymd 2010 1 1)) div ns_per_day)"
proof -
  have 1: "lifetime_df missing_sales missing_returns = Inr missing_obs"
    by (simp add: missing_sales_def missing_returns_def missing_obs_def eval_simps)
  have 2: "duration (hd missing_obs) =
      Some ((ts_value (ymd 2010 7 1) - ts_value (ymd 2010 1 1)) div ns_per_day)"
    by (simp add: missing_obs_def eval_simps)
  show ?thesis
    using 1 2 lifetime_rows_have_dates [OF 1] by simp
qed

text \<open>
  Claim C7 as stated fails: the builder takes no cutoff. For two units installed on
  2020-01-01, one of them returned, and an analysis date of 2021-01-01, the censored
  record has the event date 2011-09-01 (and a duration of \<open>- 3044\<close> days).
\<close>

theorem cutoff_is_hardcoded:
  "lifetime_df late_sales late_returns =
     Inr [\<lparr>in_service = Some (ymd 2020 1 1), event_date = Some (ymd 2020 4 1),
            event_observed = 1, duration = Some 91\<rparr>,
          \<lparr>in_service = Some (ymd 2020 1 1), event_date = Some (ymd 2011 9 1),
            event_observed = 0, duration = Some (- 3044)\<rparr>] \<and>
   ymd 2011 9 1 \<noteq> ymd 2021 1 1"
  by (simp add: late_sales_def late_returns_def eval_simps)

lemma event_observed_failure_records:
  "r \<in> set (failure_records returns_data) \<Longrightarrow> event_observed r = 1"
  by (auto simp: failure_records_concat failure_record_def)

lemma event_date_censored_records:
  "r \<in> set (censored_records sales_data returns_data) \<Longrightarrow>
     event_date r = Some (ymd 2011 9 1) \<and> event_observed r = 0"
  by (auto simp: censored_records_concat censored_record_def cutoff_date_def)

text \<open>
  Claim C7, as amended. The censoring cutoff is the constant 2011-09-01 of the builder:
  every censored record appended, and every censored row of the table handed to the
  fit, has that event date, whatever the tables; the table is a function of the two
  input tables alone.
\<close>

theorem censored_event_date_is_constant:
  "(\<forall>r \<in> set (censored_records sales_data returns_data).
      event_date r = Some (ymd 2011 9 1) \<and> event_observed r = 0) \<and>
   (lifetime_df sales_data returns_data = Inr obs \<longrightarrow>
      (\<forall>r \<in> set obs. event_observed r = 0 \<longrightarrow> event_date r = Some (ymd 2011 9 1)))"
proof -
  have part1: "\<forall>r \<in> set (censored_records sales_data returns_data).
      event_date r = Some (ymd 2011 9 1) \<and> event_observed r = 0"
    using event_date_censored_records by blast
  have part2: "\<forall>r \<in> set obs. event_observed r = 0 \<longrightarrow> event_date r = Some (ymd 2011 9 1)"
    if out: "lifetime_df sales_data returns_data = Inr obs"
  proof (intro ballI impI)
    fix r
    assume r: "r \<in> set obs" and cens: "event_observed r = 0"
    from r obtain x where x: "x \<in> set (failure_records returns_data) \<or>
        x \<in> set (censored_records sales_data returns_data)" and rx: "r = with_duration x"
      unfolding lifetime_df_Inr [OF out] dropna_with_duration by auto
    have "event_observed x = 0" using cens rx by (simp add: with_duration_def)
    with x have "x \<in> set (censored_records sales_data returns_data)"
      using event_observed_failure_records by fastforce
    then have "event_date x = Some (ymd 2011 9 1)"
      using event_date_censored_records by blast
    then show "event_date r = Some (ymd 2011 9 1)"
      using rx by (simp add: with_duration_def)
  qed
  from part1 part2 show ?thesis by blast
qed

text \<open>The fourth row of the table built from five units and three returns.\<close>

theorem censored_event_date_is_constant_witness:
  "lifetime_df ok_sales ok_returns = Inr ok_obs \<and>
   ok_obs ! 3 \<in> set ok_obs \<and> event_observed (ok_obs ! 3) = 0 \<and>
   event_date (ok_obs ! 3) = Some (ymd 2011 9 1)"
proof -
  have 1: "ok_obs ! 3 \<in> set ok_obs" by (simp add: ok_obs_def)
  have 2: "event_observed (ok_obs ! 3) = 0" by (simp add: ok_obs_def)
  show ?thesis
    using lifetime_df_ok 1 2 censored_event_date_is_constant [of ok_sales ok_returns ok_obs]
    by blast
qed

lemma total_returned_unmatched:
  "\<not> date_eq (ret_date_in_service r) (date_in_service row) \<Longrightarrow>
     total_returned (before @ r # after) row = total_returned (before @ after) row"
  by (simp add: total_returned_def)

lemma censored_records_cong:
  "\<forall>row \<in> set sales_data. num_censored rs row = num_censored rs' row \<Longrightarrow>
     censored_records sales_data rs = censored_records sales_data rs'"
  unfolding censored_records_concat
  by (rule arg_cong [where f = concat]) (simp cong: map_cong)

lemma dropna_failure_copies:
  assumes "ret_date_in_service r = Some a" and "date_of_return r = Some b"
  shows "dropna (map with_duration (replicate n (failure_record r))) =
     replicate n \<lparr>in_service = Some a, event_date = Some b, event_observed = 1,
       duration = Some ((ts_value b - ts_value a) div ns_per_day)\<rparr>"
  using assms
  by (simp add: dropna_def with_duration_def failure_record_def timedelta_days_def)

text \<open>
  Claim C10. For a return event \<open>r\<close> whose in-service date matches no row of the sales
  table, with a non-negative quantity: the builder appends, at the place of \<open>r\<close> among
  the returns, \<open>quantity_returned r\<close> observed-failure records for it; \<open>r\<close> changes the
  censored count of no cohort, hence no censored record; the censored count of a cohort
  subtracts the returns whose in-service date is present and equal to the cohort's, and
  no other; and when both dates of \<open>r\<close> are present, its records are in the table handed
  to the fit.
\<close>

theorem unmatched_return_still_observed:
  assumes nomatch: "\<forall>row \<in> set sales_data.
        \<not> date_eq (ret_date_in_service r) (date_in_service row)"
    and qty: "0 \<le> quantity_returned r"
  shows "failure_records (before @ r # after) =
           failure_records before @
           replicate (nat (quantity_returned r))
             \<lparr>in_service = ret_date_in_service r, event_date = date_of_return r,
              event_observed = 1\<rparr> @
           failure_records after \<and>
         int (length (replicate (nat (quantity_returned r))
             \<lparr>in_service = ret_date_in_service r, event_date = date_of_return r,
              event_observed = 1\<rparr>)) = quantity_returned r \<and>
         (\<forall>row \<in> set sales_data.
            num_censored (before @ r # after) row = num_censored (before @ after) row) \<and>
         censored_records sales_data (before @ r # after) =
           censored_records sales_data (before @ after) \<and>
         num_censored returns_data cohort =
           quantity_in_service cohort -
           sum_list (map quantity_returned
             (filter (\<lambda>x. ret_date_in_service x \<noteq> None \<and>
                ret_date_in_service x = date_in_service cohort) returns_data)) \<and>
         (lifetime_df sales_data (before @ r # after) = Inr obs \<and>
          ret_date_in_service r = Some a \<and> date_of_return r = Some b \<longrightarrow>
            obs = dropna (map with_duration (failure_records before)) @
              replicate (nat (quantity_returned r))
                \<lparr>in_service = Some a, event_date = Some b, event_observed = 1,
                 duration = Some ((ts_value b - ts_value a) div ns_per_day)\<rparr> @
              dropna (map with_duration
                (failure_records after @ censored_records sales_data (before @ after))))"
proof -
  have emitted: "failure_records (before @ r # after) =
      failure_records before @
      replicate (nat (quantity_returned r)) (failure_record r) @ failure_records after"
    by (simp add: failure_records_concat)
  have count: "int (length (replicate (nat (quantity_returned r)) (failure_record r))) =
      quantity_returned r"
    using qty by simp
  have same: "\<forall>row \<in> set sales_data.
      num_censored (before @ r # after) row = num_censored (before @ after) row"
    using nomatch by (simp add: num_censored_def total_returned_unmatched)
  then have cens: "censored_records sales_data (before @ r # after) =
      censored_records sales_data (before @ after)"
    by (rule censored_records_cong)
  have mask: "(\<lambda>x. date_eq (ret_date_in_service x) (date_in_service cohort)) =
      (\<lambda>x. ret_date_in_service x \<noteq> None \<and> ret_date_in_service x = date_in_service cohort)"
    by (intro ext) (auto simp: date_eq_def split: option.splits)
  have exact: "num_censored returns_data cohort =
      quantity_in_service cohort -
      sum_list (map quantity_returned
        (filter (\<lambda>x. ret_date_in_service x \<noteq> None \<and>
           ret_date_in_service x = date_in_service cohort) returns_data))"
    unfolding num_censored_def total_returned_def mask ..
  have table: "obs = dropna (map with_duration (failure_records before)) @
      replicate (nat (quantity_returned r))
        \<lparr>in_service = Some a, event_date = Some b, event_observed = 1,
         duration = Some ((ts_value b - ts_value a) div ns_per_day)\<rparr> @
      dropna (map with_duration
        (failure_records after @ censored_records sales_data (before @ after)))"
    if out: "lifetime_df sales_data (before @ r # after) = Inr obs"
      and a: "ret_date_in_service r = Some a" and b: "date_of_return r = Some b"
  proof -
    have "obs = dropna (map with_duration (failure_records before)) @
        dropna (map with_duration (replicate (nat (quantity_returned r)) (failure_record r))) @
        dropna (map with_duration
          (failure_records after @ censored_records sales_data (before @ after)))"
      unfolding lifetime_df_Inr [OF out] emitted cens by (simp add: dropna_def)
    then show ?thesis by (simp only: dropna_failure_copies [OF a b])
  qed
  from emitted count same cens exact table show ?thesis
    unfolding failure_record_def by blast
qed

text \<open>Two units returned with an in-service date on which nothing was installed.\<close>

theorem unmatched_return_still_observed_witness:
  "0 \<le> quantity_returned unmatched_return \<and>
   failure_records ([] @ unmatched_return # ok_returns) =
     failure_records [] @
     replicate (nat (quantity_returned unmatched_return))
       \<lparr>in_service = ret_date_in_service unmatched_return,
        event_date = date_of_return unmatched_return, event_observed = 1\<rparr> @
     failure_records ok_returns \<and>
   num_censored ([] @ unmatched_return # ok_returns) (hd ok_sales) = 2 \<and>
   censored_records ok_sales ([] @ unmatched_return # ok_returns) =
     censored_records ok_sales ([] @ ok_returns)"
proof -
  have 1: "\<forall>row \<in> set ok_sales.
      \<not> date_eq (ret_date_in_service unmatched_return) (date_in_service row)"
    by (simp add: ok_sales_def unmatched_return_def date_eq_def ymd_def)
  have 2: "0 \<le> quantity_returned unmatched_return"
    by (simp add: unmatched_return_def)
  have 3: "num_censored ([] @ ok_returns) (hd ok_sales) = 2"
    by (simp add: ok_sales_def ok_returns_def num_censored_def total_returned_def date_eq_def)
  have 4: "hd ok_sales \<in> set ok_sales" by (simp add: ok_sales_def)
  note T = unmatched_return_still_observed [OF 1 2, where before = "[]" and after = ok_returns
      and returns_data = "[]" and cohort = "hd ok_sales" and obs = "[]"
      and a = "ymd 2010 2 1" and b = "ymd 2010 3 1"]
  from T have A: "failure_records ([] @ unmatched_return # ok_returns) =
     failure_records [] @
     replicate (nat (quantity_returned unmatched_return))
       \<lparr>in_service = ret_date_in_service unmatched_return,
        event_date = date_of_return unmatched_return, event_observed = 1\<rparr> @
     failure_records ok_returns"
    by (rule conjunct1)
  from T have B: "\<forall>row \<in> set ok_sales.
      num_censored ([] @ unmatched_return # ok_returns) row = num_censored ([] @ ok_returns) row"
    by blast
  from T have C: "censored_records ok_sales ([] @ unmatched_return # ok_returns) =
      censored_records ok_sales ([] @ ok_returns)"
    by blast
  from B 4 have "num_censored ([] @ unmatched_return # ok_returns) (hd ok_sales) =
      num_censored ([] @ ok_returns) (hd ok_sales)"
    by (rule bspec)
  with 3 have D: "num_censored ([] @ unmatched_return # ok_returns) (hd ok_sales) = 2"
    by simp
  from 2 A D C show ?thesis by (intro conjI)
qed

end
